theory Spec2Isabelle
  imports Main "HOL-Library.Sublist"
begin

section \<open>Python values and string operations used by \<open>app.py\<close>\<close>

text \<open>
  A Python \<open>str\<close> is modelled as a \<open>string\<close> whose characters are the code points
  below 256. All literals of \<open>app.py\<close> are ASCII. Python's unbounded integers are \<open>int\<close>.
\<close>

text \<open>\<open>str.isspace\<close> on one code point below 256: TAB, LF, VT, FF, CR, FS, GS, RS, US,
  space, NEL and the no-break space.\<close>

definition is_space :: "char \<Rightarrow> bool" where
  "is_space c = ((of_char c :: nat) \<in> set [9, 10, 11, 12, 13, 28, 29, 30, 31, 32, 133, 160])"

text \<open>\<open>str.lower\<close> on one code point below 256: \<open>A\<close>-\<open>Z\<close> and the Latin-1 capitals
  (0xC0-0xDE without the multiplication sign 0xD7) move up by 32.\<close>

definition lower_char :: "char \<Rightarrow> char" where
  "lower_char c =
     (let n = (of_char c :: nat)
      in if (65 \<le> n \<and> n \<le> 90) \<or> (192 \<le> n \<and> n \<le> 222 \<and> n \<noteq> 215)
         then char_of (n + 32) else c)"

definition lower :: "string \<Rightarrow> string" where
  "lower s = map lower_char s"

definition lstrip :: "string \<Rightarrow> string" where
  "lstrip s = dropWhile is_space s"

definition rstrip :: "string \<Rightarrow> string" where
  "rstrip s = rev (dropWhile is_space (rev s))"

definition strip :: "string \<Rightarrow> string" where
  "strip s = rstrip (lstrip s)"

text \<open>\<open>s.startswith(p)\<close>.\<close>

definition startswith :: "string \<Rightarrow> string \<Rightarrow> bool" where
  "startswith s p = prefix p s"

text \<open>\<open>m in s\<close> on strings: \<open>m\<close> occurs in \<open>s\<close> as a contiguous run.\<close>

definition str_in :: "string \<Rightarrow> string \<Rightarrow> bool" where
  "str_in m s = sublist m s"

text \<open>\<open>sep.join(xs)\<close>.\<close>

fun join :: "string \<Rightarrow> string list \<Rightarrow> string" where
  "join sep [] = []"
| "join sep [x] = x"
| "join sep (x # y # ys) = x @ sep @ join sep (y # ys)"

text \<open>JSON-like values: what a tag entry or a column of a database row can be.\<close>

datatype jvalue =
    JStr string
  | JInt int
  | JBool bool
  | JNull
  | JObj "(string \<times> jvalue) list"

text \<open>Every exception is an instance of \<open>Exception\<close>: its class name and \<open>str(e)\<close>.\<close>

datatype exn = Exn (exn_class: string) (exn_str: string)

definition IndexError :: exn where
  "IndexError = Exn ''IndexError'' ''list index out of range''"

section \<open>Notebook cells and output records\<close>

text \<open>
  An output record is a dict; each key the code reads with \<open>out.get\<close> is an optional
  field, \<open>None\<close> when the key is absent: \<open>output_type\<close>, \<open>text\<close>, \<open>data\<close> and
  \<open>traceback\<close>.
\<close>

record output_record =
  output_type :: "string option"
  out_text :: "string option"
  out_data :: "(string \<times> string) list option"
  out_traceback :: "string list option"

text \<open>
  A cell: \<open>tags\<close> is \<open>cell.get('metadata', {}).get('tags', [])\<close>, \<open>source\<close> is the
  sequence that \<open>''.join(cell.source)\<close> iterates over, \<open>outputs\<close> is
  \<open>cell.get('outputs', [])\<close>.
\<close>

record cell =
  tags :: "jvalue list"
  source :: "string list"
  outputs :: "output_record list"

definition cell_src :: "cell \<Rightarrow> string" where
  "cell_src c = concat (source c)"

section \<open>Cell selection (\<open>run_health_audit_notebook\<close>, lines 52-85)\<close>

text \<open>\<open>isinstance(t, str) and t.lower() == 'ui:health'\<close>\<close>

fun is_health_tag :: "jvalue \<Rightarrow> bool" where
  "is_health_tag (JStr t) = (lower t = ''ui:health'')"
| "is_health_tag _ = False"

text \<open>The inner loop \<open>for t in tags\<close>; the \<open>break\<close> is the branch without a recursive call.\<close>

fun scan_tags :: "int \<Rightarrow> int \<Rightarrow> jvalue list \<Rightarrow> int" where
  "scan_tags last_needed_idx i [] = last_needed_idx"
| "scan_tags last_needed_idx i (t # ts) =
     (if is_health_tag t then max last_needed_idx i
      else scan_tags last_needed_idx i ts)"

text \<open>The loop \<open>for i, cell in enumerate(nb.cells)\<close> of rule 1, from index \<open>i\<close> on.\<close>

fun tag_scan :: "int \<Rightarrow> int \<Rightarrow> cell list \<Rightarrow> int" where
  "tag_scan last_needed_idx i [] = last_needed_idx"
| "tag_scan last_needed_idx i (c # cs) =
     tag_scan (if tags c \<noteq> [] then scan_tags last_needed_idx i (tags c)
               else last_needed_idx) (i + 1) cs"

definition load_markers :: "string list" where
  "load_markers =
     [''listings = pd.read_csv'',
      ''calendar = pd.read_csv'',
      ''reviews = pd.read_csv'',
      ''def run_health_audit'',
      ''def persist_health_audit'',
      ''persist_health_audit('',
      ''run_health_audit('']"

definition pip_install :: string where
  "pip_install = ''%pip install''"

text \<open>The inner loop \<open>for marker in load_markers\<close>.\<close>

fun scan_markers :: "int \<Rightarrow> int \<Rightarrow> string \<Rightarrow> string list \<Rightarrow> int" where
  "scan_markers last_needed_idx i src [] = last_needed_idx"
| "scan_markers last_needed_idx i src (marker # ms) =
     (if str_in marker src then max last_needed_idx i
      else scan_markers last_needed_idx i src ms)"

text \<open>The loop of rule 2; \<open>continue\<close> leaves \<open>last_needed_idx\<close> as it is for a
  package-installation cell.\<close>

fun marker_scan :: "int \<Rightarrow> int \<Rightarrow> cell list \<Rightarrow> int" where
  "marker_scan last_needed_idx i [] = last_needed_idx"
| "marker_scan last_needed_idx i (c # cs) =
     marker_scan
       (let src = cell_src c
        in if startswith (lstrip src) pip_install then last_needed_idx
           else scan_markers last_needed_idx i src load_markers)
       (i + 1) cs"

text \<open>The value of \<open>last_needed_idx\<close> after the three rules.\<close>

definition select_cutoff :: "cell list \<Rightarrow> int" where
  "select_cutoff cells =
     (let l1 = tag_scan (- 1) 0 cells;
          l2 = (if l1 < 0 then marker_scan l1 0 cells else l1)
      in if l2 < 0 then min (int (length cells) - 1) 19 else l2)"

section \<open>The reduced notebook (lines 87-107)\<close>

definition post_snippet :: string where
  "post_snippet =
     [CHR 0x0A] @ ''try:'' @ [CHR 0x0A, CHR 0x09]
     @ ''audit = run_health_audit(listings, calendar, reviews, verbose=False)''
     @ [CHR 0x0A, CHR 0x09]
     @ ''persist_health_audit(audit, overwrite=True, verbose=False)''
     @ [CHR 0x0A, CHR 0x09]
     @ ''print('WSB_DSS_HEALTH_PERSISTED')'' @ [CHR 0x0A]
     @ ''except Exception as e:'' @ [CHR 0x0A, CHR 0x09]
     @ ''print('WSB_DSS_HEALTH_ERROR', e)'' @ [CHR 0x0A]"

text \<open>\<open>nbformat.v4.new_code_cell(post_snippet)\<close>: no tags, no outputs.\<close>

definition synthesis_cell :: cell where
  "synthesis_cell = \<lparr>tags = [], source = [post_snippet], outputs = []\<rparr>"

text \<open>
  The loop \<open>for idx in range(0, last_needed_idx+1)\<close> over the remaining indices, with
  \<open>selected_cells\<close> as accumulator; \<open>continue\<close> leaves it as it is.
  \<open>nb.cells[idx]\<close> raises \<open>IndexError\<close> past the end.
\<close>

fun select_cells :: "cell list \<Rightarrow> cell list \<Rightarrow> nat list \<Rightarrow> exn + cell list" where
  "select_cells cells selected_cells [] = Inr selected_cells"
| "select_cells cells selected_cells (idx # idxs) =
     (if idx < length cells
      then select_cells cells
             (let c = cells ! idx; src = strip (cell_src c)
              in if startswith src pip_install then selected_cells
                 else selected_cells @ [c])
             idxs
      else Inl IndexError)"

text \<open>\<open>range(0, n)\<close> for an integer \<open>n\<close>: empty when \<open>n \<le> 0\<close>.\<close>

definition range0 :: "int \<Rightarrow> nat list" where
  "range0 n = [0..<nat n]"

text \<open>The cells of \<open>subset_nb\<close> for a given \<open>last_needed_idx\<close>.\<close>

definition build_subset :: "cell list \<Rightarrow> int \<Rightarrow> exn + cell list" where
  "build_subset cells last_needed_idx =
     (case select_cells cells [] (range0 (last_needed_idx + 1)) of
        Inl e \<Rightarrow> Inl e
      | Inr selected_cells \<Rightarrow> Inr (selected_cells @ [synthesis_cell]))"

definition reduced_document :: "cell list \<Rightarrow> exn + cell list" where
  "reduced_document cells = build_subset cells (select_cutoff cells)"

section \<open>Output inspection (lines 111-128)\<close>

definition success_marker :: string where
  "success_marker = ''WSB_DSS_HEALTH_PERSISTED''"

text \<open>One pass of the loop body: the new value of \<open>stdout_text\<close>.\<close>

definition add_output :: "string \<Rightarrow> output_record \<Rightarrow> string" where
  "add_output stdout_text out =
     (if output_type out = Some ''stream''
      then stdout_text @ (case out_text out of None \<Rightarrow> [] | Some t \<Rightarrow> t)
      else if output_type out = Some ''execute_result'' \<or> output_type out = Some ''display_data''
      then (let d = (case out_data out of None \<Rightarrow> [] | Some d \<Rightarrow> d)
            in case map_of d ''text/plain'' of
                 Some p \<Rightarrow> stdout_text @ p
               | None \<Rightarrow> stdout_text)
      else if output_type out = Some ''error''
      then stdout_text @ join [CHR 0x0A] (case out_traceback out of None \<Rightarrow> [] | Some tb \<Rightarrow> tb)
      else stdout_text)"

text \<open>The loop \<open>for out in last_outputs\<close>.\<close>

fun collect_outputs :: "string \<Rightarrow> output_record list \<Rightarrow> string" where
  "collect_outputs stdout_text [] = stdout_text"
| "collect_outputs stdout_text (out # outs) = collect_outputs (add_output stdout_text out) outs"

text \<open>\<open>subset_nb.cells[-1]\<close> raises \<open>IndexError\<close> on an empty list.\<close>

definition last_cell :: "cell list \<Rightarrow> exn + cell" where
  "last_cell cs = (if cs = [] then Inl IndexError else Inr (last cs))"

text \<open>The value of \<open>stdout_text\<close> after the loop, for the executed cells.\<close>

definition stdout_text_of :: "cell list \<Rightarrow> exn + string" where
  "stdout_text_of executed =
     (case last_cell executed of
        Inl e \<Rightarrow> Inl e
      | Inr c \<Rightarrow> Inr (collect_outputs [] (outputs c)))"

section \<open>The audit runner and the HTTP handler\<close>

text \<open>
  The two external collaborators are parameters: \<open>load\<close> is the result of
  \<open>nbformat.read(NOTEBOOK_PATH, as_version=4)\<close> (the cells, or the exception raised), and
  \<open>engine\<close> is \<open>NotebookClient(subset_nb, timeout=900, allow_errors=True).execute()\<close>, which
  either raises (a cell timeout, an environment error) or leaves the cells of
  \<open>subset_nb\<close> with their outputs filled in.

  \<open>audit_body\<close> is the body of the \<open>try\<close> block together with the \<open>return True\<close> that
  follows it.
\<close>

definition audit_body :: "exn + cell list \<Rightarrow> (cell list \<Rightarrow> exn + cell list) \<Rightarrow> exn + bool" where
  "audit_body load engine =
     (case load of
        Inl e \<Rightarrow> Inl e
      | Inr cells \<Rightarrow>
          (case reduced_document cells of
             Inl e \<Rightarrow> Inl e
           | Inr subset_nb \<Rightarrow>
               (case engine subset_nb of
                  Inl e \<Rightarrow> Inl e
                | Inr executed \<Rightarrow>
                    (case stdout_text_of executed of
                       Inl e \<Rightarrow> Inl e
                     | Inr stdout_text \<Rightarrow>
                         (let persisted = str_in success_marker stdout_text
                          in Inr True)))))"

text \<open>\<open>except Exception as e: ... return False\<close>\<close>

definition run_health_audit_notebook ::
    "exn + cell list \<Rightarrow> (cell list \<Rightarrow> exn + cell list) \<Rightarrow> bool" where
  "run_health_audit_notebook load engine =
     (case audit_body load engine of
        Inl e \<Rightarrow> False
      | Inr r \<Rightarrow> r)"

text \<open>
  \<open>run_and_get_health\<close>: \<open>query\<close> is the result of connecting to the database and running
  \<open>SELECT * FROM health_checks ORDER BY computed_at DESC LIMIT 1\<close> with \<open>fetchone()\<close>:
  an exception, \<open>None\<close>, or the row as a tuple of column values. A response is a dict,
  given as its items in order.
\<close>

definition row_keys :: "string list" where
  "row_keys = [''dataset_id'', ''computed_at'', ''metrics'']"

definition health_response :: "bool \<Rightarrow> exn + jvalue list option \<Rightarrow> (string \<times> jvalue) list" where
  "health_response ok query =
     (if \<not> ok
      then [(''status'', JStr ''error''),
            (''error'', JStr ''Failed to execute health audit cells.'')]
      else (case query of
              Inl e \<Rightarrow> [(''status'', JStr ''error''), (''error'', JStr (exn_str e))]
            | Inr row \<Rightarrow>
                (if row \<noteq> None \<and> row \<noteq> Some []
                 then [(''status'', JStr ''ok''), (''data'', JObj (zip row_keys (the row)))]
                 else [(''status'', JStr ''empty''), (''data'', JNull)])))"

definition run_and_get_health ::
    "exn + cell list \<Rightarrow> (cell list \<Rightarrow> exn + cell list) \<Rightarrow> exn + jvalue list option
      \<Rightarrow> (string \<times> jvalue) list" where
  "run_and_get_health load engine query =
     health_response (run_health_audit_notebook load engine) query"

section \<open>Properties of cells used in the statements\<close>

text \<open>A cell carries a tag that the tag rule accepts.\<close>

definition health_tagged :: "cell \<Rightarrow> bool" where
  "health_tagged c = list_ex is_health_tag (tags c)"

text \<open>A cell that the content heuristic accepts: not a package-installation cell, and its
  source contains one of the markers.\<close>

definition marker_match :: "cell \<Rightarrow> bool" where
  "marker_match c =
     (\<not> startswith (lstrip (cell_src c)) pip_install
      \<and> list_ex (\<lambda>m. str_in m (cell_src c)) load_markers)"

text \<open>
  A scan that records the index of every cell satisfying \<open>P\<close>: both loops of the selector
  are instances of it (\<open>tag_scan_eq\<close>, \<open>marker_scan_eq\<close>).
\<close>

fun idx_scan :: "(cell \<Rightarrow> bool) \<Rightarrow> int \<Rightarrow> int \<Rightarrow> cell list \<Rightarrow> int" where
  "idx_scan P l i [] = l"
| "idx_scan P l i (c # cs) = idx_scan P (if P c then max l i else l) (i + 1) cs"

text \<open>The non-string entries of a tag list, and a cell stripped of them.\<close>

fun is_str :: "jvalue \<Rightarrow> bool" where
  "is_str (JStr s) = True"
| "is_str _ = False"

definition string_tags_only :: "cell \<Rightarrow> cell" where
  "string_tags_only c = c\<lparr>tags := filter is_str (tags c)\<rparr>"

section \<open>Example notebooks\<close>

definition plain_cell :: cell where
  "plain_cell = \<lparr>tags = [], source = [''x = 1''], outputs = []\<rparr>"

definition code_cell :: "string \<Rightarrow> cell" where
  "code_cell s = \<lparr>tags = [], source = [s], outputs = []\<rparr>"

definition tagged_cell :: "jvalue list \<Rightarrow> string \<Rightarrow> cell" where
  "tagged_cell ts s = \<lparr>tags = ts, source = [s], outputs = []\<rparr>"

text \<open>Five cells, cell 2 tagged \<open>UI:Health\<close>, markers in cells 3 and 4.\<close>

definition doc5 :: "cell list" where
  "doc5 = [plain_cell, plain_cell, tagged_cell [JStr ''UI:Health''] ''y = 2'',
           code_cell ''listings = pd.read_csv(p)'', code_cell ''def run_health_audit(a):'']"

text \<open>Twenty-five cells without tags, load markers in cells 3 and 7 only.\<close>

definition doc25 :: "cell list" where
  "doc25 = replicate 3 plain_cell @ [code_cell ''listings = pd.read_csv(p)'']
           @ replicate 3 plain_cell @ [code_cell ''calendar = pd.read_csv(q)'']
           @ replicate 17 plain_cell"

section \<open>The reduced notebook and the output buffer, as described\<close>

text \<open>The test of line 92: the stripped source starts with the package-installation
  directive.\<close>

definition pip_install_cell :: "cell \<Rightarrow> bool" where
  "pip_install_cell c = startswith (strip (cell_src c)) pip_install"

text \<open>Cells \<open>0..cutoff\<close> without the package-installation cells.\<close>

definition filtered_prefix :: "cell list \<Rightarrow> int \<Rightarrow> cell list" where
  "filtered_prefix cells cutoff =
     filter (\<lambda>c. \<not> pip_install_cell c) (take (nat (cutoff + 1)) cells)"

text \<open>
  What one output record contributes to the buffer: the text of a stream output, the
  \<open>text/plain\<close> payload of an \<open>execute_result\<close> or \<open>display_data\<close> output that has one,
  the traceback lines of an error joined by newlines, and nothing otherwise.
\<close>

definition output_contribution :: "output_record \<Rightarrow> string" where
  "output_contribution out =
     (case output_type out of
        None \<Rightarrow> []
      | Some ty \<Rightarrow>
          if ty = ''stream'' then (case out_text out of None \<Rightarrow> [] | Some t \<Rightarrow> t)
          else if ty \<in> {''execute_result'', ''display_data''}
          then (case out_data out of
                  None \<Rightarrow> []
                | Some d \<Rightarrow> (case map_of d ''text/plain'' of None \<Rightarrow> [] | Some p \<Rightarrow> p))
          else if ty = ''error''
          then (case out_traceback out of None \<Rightarrow> [] | Some tb \<Rightarrow> join [CHR 0x0A] tb)
          else [])"

text \<open>The contributions of the outputs of the last cell, in the order recorded.\<close>

definition classification_buffer :: "cell list \<Rightarrow> string" where
  "classification_buffer executed = concat (map output_contribution (outputs (last executed)))"

section \<open>Example outputs, engines and storage results\<close>

text \<open>A tagged cutoff whose prefix holds a package-installation cell.\<close>

definition doc_pip :: "cell list" where
  "doc_pip = [code_cell ''  %pip install pandas'', plain_cell,
              tagged_cell [JInt 7, JStr ''ui:health''] ''y = 2'', plain_cell]"

definition stream_output :: "string \<Rightarrow> output_record" where
  "stream_output t =
     \<lparr>output_type = Some ''stream'', out_text = Some t, out_data = None, out_traceback = None\<rparr>"

definition rich_output :: "string \<Rightarrow> (string \<times> string) list \<Rightarrow> output_record" where
  "rich_output ty d =
     \<lparr>output_type = Some ty, out_text = None, out_data = Some d, out_traceback = None\<rparr>"

definition error_output :: "string list \<Rightarrow> output_record" where
  "error_output tb =
     \<lparr>output_type = Some ''error'', out_text = None, out_data = None, out_traceback = Some tb\<rparr>"

definition mixed_outputs :: "output_record list" where
  "mixed_outputs =
     [stream_output ''a'',
      rich_output ''execute_result'' [(''text/html'', ''<b>''), (''text/plain'', ''b'')],
      rich_output ''display_data'' [(''image/png'', ''xx'')],
      \<lparr>output_type = Some ''update_display_data'', out_text = Some ''zz'',
        out_data = Some [(''text/plain'', ''q'')], out_traceback = None\<rparr>,
      error_output [''t1'', ''t2''],
      stream_output ''WSB_DSS_HEALTH_PERSISTED'']"

text \<open>An engine that runs every cell without raising and leaves \<open>outs\<close> on the last one.\<close>

definition engine_with_outputs :: "output_record list \<Rightarrow> cell list \<Rightarrow> exn + cell list" where
  "engine_with_outputs outs cs =
     Inr (if cs = [] then [] else butlast cs @ [(last cs)\<lparr>outputs := outs\<rparr>])"

text \<open>What the synthesis cell prints when \<open>run_health_audit\<close> is not defined.\<close>

definition failed_synthesis_outputs :: "output_record list" where
  "failed_synthesis_outputs = [stream_output ''WSB_DSS_HEALTH_ERROR name 'run_health_audit' is not defined'']"

definition timeout_engine :: "cell list \<Rightarrow> exn + cell list" where
  "timeout_engine cs = Inl (Exn ''CellTimeoutError'' ''A cell timed out while it was being executed, after 900 seconds.'')"

definition dropping_engine :: "cell list \<Rightarrow> exn + cell list" where
  "dropping_engine cs = Inr []"

definition missing_notebook :: "exn + cell list" where
  "missing_notebook = Inl (Exn ''FileNotFoundError'' ''WSB-DSS.ipynb'')"

definition sample_row :: "jvalue list" where
  "sample_row = [JStr ''listings'', JStr ''2024-05-01 10:00:00'', JStr ''{}'']"

definition db_error :: exn where
  "db_error = Exn ''CatalogException'' ''Table with name health_checks does not exist!''"

section \<open>The selector loops as index scans\<close>

lemma scan_tags_eq: "scan_tags l i ts = (if list_ex is_health_tag ts then max l i else l)"
  by (induction ts) auto

lemma tag_scan_eq: "tag_scan l i cs = idx_scan health_tagged l i cs"
  by (induction cs arbitrary: l i) (auto simp: scan_tags_eq health_tagged_def)

lemma scan_markers_eq:
  "scan_markers l i src ms = (if list_ex (\<lambda>m. str_in m src) ms then max l i else l)"
  by (induction ms) auto

lemma marker_scan_eq: "marker_scan l i cs = idx_scan marker_match l i cs"
  by (induction cs arbitrary: l i) (auto simp: scan_markers_eq marker_match_def Let_def)

lemma idx_scan_ge: "l \<le> idx_scan P l i cs"
proof (induction cs arbitrary: l i)
  case Nil
  show ?case by simp
next
  case (Cons c cs)
  have "l \<le> (if P c then max l i else l)" by simp
  also have "\<dots> \<le> idx_scan P (if P c then max l i else l) (i + 1) cs" by (rule Cons.IH)
  finally show ?case by simp
qed

lemma idx_scan_none: "\<not> list_ex P cs \<Longrightarrow> idx_scan P l i cs = l"
  by (induction cs arbitrary: l i) auto

lemma idx_scan_upper:
  "j < length cs \<Longrightarrow> P (cs ! j) \<Longrightarrow> i + int j \<le> idx_scan P l i cs"
proof (induction cs arbitrary: l i j)
  case Nil
  then show ?case by simp
next
  case (Cons c cs)
  show ?case
  proof (cases j)
    case 0
    with Cons.prems have "P c" by simp
    have "max l i \<le> idx_scan P (max l i) (i + 1) cs" by (rule idx_scan_ge)
    with \<open>P c\<close> 0 show ?thesis by simp
  next
    case (Suc k)
    with Cons.prems have "k < length cs" "P (cs ! k)" by simp_all
    with Cons.IH[of k "i + 1" "if P c then max l i else l"] Suc
    show ?thesis by simp
  qed
qed

lemma idx_scan_mem:
  "idx_scan P l i cs = l \<or> (\<exists>j<length cs. P (cs ! j) \<and> idx_scan P l i cs = i + int j)"
proof (induction cs arbitrary: l i)
  case Nil
  show ?case by simp
next
  case (Cons c cs)
  let ?l' = "if P c then max l i else l"
  from Cons.IH[of ?l' "i + 1"]
  consider (a) "idx_scan P ?l' (i + 1) cs = ?l'"
    | (b) j where "j < length cs" "P (cs ! j)" "idx_scan P ?l' (i + 1) cs = i + 1 + int j"
    by blast
  then show ?case
  proof cases
    case a
    show ?thesis
    proof (cases "P c \<and> l < i")
      case True
      with a have "idx_scan P l i (c # cs) = i + int 0" by simp
      moreover have "0 < length (c # cs)" "P ((c # cs) ! 0)" using True by simp_all
      ultimately show ?thesis by blast
    next
      case False
      with a have "idx_scan P l i (c # cs) = l" by (auto simp: max_def)
      then show ?thesis by blast
    qed
  next
    case b
    then have "Suc j < length (c # cs)" "P ((c # cs) ! Suc j)"
      "idx_scan P l i (c # cs) = i + int (Suc j)" by simp_all
    then show ?thesis by blast
  qed
qed

lemma idx_scan_Max:
  assumes "list_ex P cs"
  shows "idx_scan P (- 1) 0 cs = int (Max {j. j < length cs \<and> P (cs ! j)})"
proof -
  let ?S = "{j. j < length cs \<and> P (cs ! j)}"
  let ?r = "idx_scan P (- 1) 0 cs"
  from assms obtain k where k: "k < length cs" "P (cs ! k)"
    by (auto simp: list_ex_iff in_set_conv_nth)
  from k idx_scan_upper[of k cs P 0 "- 1"] have "0 \<le> ?r" by simp
  with idx_scan_mem[of P "- 1" 0 cs] obtain j where j: "j < length cs" "P (cs ! j)" "?r = int j"
    by auto
  have fin: "finite ?S" by simp
  have "Max ?S = j"
  proof (rule Max_eqI[OF fin])
    fix y assume "y \<in> ?S"
    then have "y < length cs" "P (cs ! y)" by simp_all
    with idx_scan_upper[of y cs P 0 "- 1"] j show "y \<le> j" by simp
  next
    show "j \<in> ?S" using j by simp
  qed
  with j show ?thesis by simp
qed

lemma idx_scan_lt: "l < i + int (length cs) \<Longrightarrow> idx_scan P l i cs < i + int (length cs)"
  using idx_scan_mem[of P l i cs] by auto

lemma tag_scan_cong:
  "map tags cs = map tags cs' \<Longrightarrow> tag_scan l i cs = tag_scan l i cs'"
proof (induction cs arbitrary: cs' l i)
  case Nil
  then show ?case by simp
next
  case (Cons c cs)
  then obtain c' cs'' where "cs' = c' # cs''" "tags c = tags c'" "map tags cs = map tags cs''"
    by (cases cs') auto
  with Cons.IH show ?case by simp
qed

lemma select_cutoff_tagged:
  "list_ex health_tagged cells \<Longrightarrow> select_cutoff cells = tag_scan (- 1) 0 cells"
  using idx_scan_Max[of health_tagged cells]
  by (simp add: select_cutoff_def tag_scan_eq Let_def)

lemma select_cutoff_lt: "select_cutoff cells < int (length cells)"
proof -
  let ?l1 = "idx_scan health_tagged (- 1) 0 cells"
  have l1: "?l1 < int (length cells)" "- 1 \<le> ?l1"
    using idx_scan_lt[of "- 1" 0 cells health_tagged] idx_scan_ge[of "- 1" health_tagged 0 cells]
    by simp_all
  have l2: "idx_scan marker_match ?l1 0 cells < int (length cells)"
    using idx_scan_lt[of ?l1 0 cells marker_match] l1 by simp
  show ?thesis
    using l1 l2 by (auto simp: select_cutoff_def tag_scan_eq marker_scan_eq Let_def)
qed

lemma list_ex_map: "list_ex P (map f xs) = list_ex (\<lambda>x. P (f x)) xs"
  by (induction xs) auto

lemma health_tagged_cong:
  assumes "map tags cs' = map tags cs"
  shows "list_ex health_tagged cs' = list_ex health_tagged cs"
proof -
  have "list_ex health_tagged xs = list_ex (list_ex is_health_tag) (map tags xs)" for xs
    by (induction xs) (simp_all add: health_tagged_def)
  with assms show ?thesis by simp
qed

lemma is_health_tag_str: "is_health_tag t \<Longrightarrow> is_str t"
  by (cases t) simp_all

lemma health_tagged_string_tags_only: "health_tagged (string_tags_only c) = health_tagged c"
  by (auto simp: health_tagged_def string_tags_only_def list_ex_iff is_health_tag_str)

lemma marker_match_string_tags_only: "marker_match (string_tags_only c) = marker_match c"
  by (simp add: marker_match_def string_tags_only_def cell_src_def)

lemma idx_scan_map: "idx_scan P l i (map f cs) = idx_scan (\<lambda>c. P (f c)) l i cs"
  by (induction cs arbitrary: l i) simp_all

section \<open>The selection rules\<close>

text \<open>
  Claim C2. When some cell carries a health tag, the cutoff is the greatest index of a
  health-tagged cell, it is the result of the tag scan alone, and it is the same for every
  notebook with the same tags, whatever the cell sources contain.
\<close>

theorem tag_rule_precedence:
  assumes "list_ex health_tagged cells"
  shows "select_cutoff cells = int (Max {j. j < length cells \<and> health_tagged (cells ! j)})
         \<and> select_cutoff cells = tag_scan (- 1) 0 cells
         \<and> (\<forall>cells' :: cell list. map tags cells' = map tags cells
               \<longrightarrow> select_cutoff cells' = select_cutoff cells)"
proof (intro conjI allI impI)
  show t: "select_cutoff cells = tag_scan (- 1) 0 cells"
    using assms by (rule select_cutoff_tagged)
  show "select_cutoff cells = int (Max {j. j < length cells \<and> health_tagged (cells ! j)})"
    using t idx_scan_Max[OF assms] by (simp add: tag_scan_eq)
  fix cells' :: "cell list" assume eq: "map tags cells' = map tags cells"
  from health_tagged_cong[OF eq] assms have "list_ex health_tagged cells'" by simp
  then have "select_cutoff cells' = tag_scan (- 1) 0 cells'" by (rule select_cutoff_tagged)
  also have "\<dots> = tag_scan (- 1) 0 cells" using eq by (rule tag_scan_cong)
  finally show "select_cutoff cells' = select_cutoff cells" using t by simp
qed

theorem tag_rule_precedence_witness:
  "list_ex health_tagged doc5
   \<and> select_cutoff doc5 = int (Max {j. j < length doc5 \<and> health_tagged (doc5 ! j)})
   \<and> select_cutoff doc5 = 2
   \<and> marker_match (doc5 ! 3) \<and> marker_match (doc5 ! 4)"
proof -
  have h: "list_ex health_tagged doc5" by code_simp
  have c: "select_cutoff doc5 = 2" by code_simp
  have m: "marker_match (doc5 ! 3)" "marker_match (doc5 ! 4)" by code_simp+
  from tag_rule_precedence[OF h] h c m show ?thesis by blast
qed

text \<open>
  Claim C3. Without a health-tagged cell and with at least one cell that the content
  heuristic accepts, the cutoff is the greatest index of such a cell; a cell whose source
  starts, after leading whitespace, with \<open>%pip install\<close> is never accepted.
\<close>

theorem marker_rule:
  assumes "\<not> list_ex health_tagged cells" and "list_ex marker_match cells"
  shows "select_cutoff cells = int (Max {j. j < length cells \<and> marker_match (cells ! j)})"
proof -
  have l1: "tag_scan (- 1) 0 cells = - 1"
    using assms(1) by (simp add: tag_scan_eq idx_scan_none)
  have l2: "marker_scan (- 1) 0 cells = int (Max {j. j < length cells \<and> marker_match (cells ! j)})"
    using idx_scan_Max[OF assms(2)] by (simp add: marker_scan_eq)
  show ?thesis by (simp add: select_cutoff_def l1 l2 Let_def)
qed

theorem marker_rule_witness:
  "\<not> list_ex health_tagged doc25 \<and> list_ex marker_match doc25 \<and> length doc25 = 25
   \<and> select_cutoff doc25 = int (Max {j. j < length doc25 \<and> marker_match (doc25 ! j)})
   \<and> select_cutoff doc25 = 7"
proof -
  have h1: "\<not> list_ex health_tagged doc25" by code_simp
  have h2: "list_ex marker_match doc25" by code_simp
  have c: "select_cutoff doc25 = 7" by code_simp
  have n: "length doc25 = 25" by code_simp
  from marker_rule[OF h1 h2] h1 h2 c n show ?thesis by blast
qed

text \<open>
  Claim C4. With neither a health-tagged cell nor a marker match the cutoff is
  \<open>min (len - 1) 19\<close>; for the empty notebook it is \<open>-1\<close> and the reduced notebook is the
  synthesis cell alone.
\<close>

theorem fallback_rule:
  "(\<not> list_ex health_tagged cells \<and> \<not> list_ex marker_match cells
      \<longrightarrow> select_cutoff cells = min (int (length cells) - 1) 19)
   \<and> select_cutoff [] = - 1
   \<and> reduced_document [] = Inr [synthesis_cell]"
proof (intro conjI impI)
  assume a: "\<not> list_ex health_tagged cells \<and> \<not> list_ex marker_match cells"
  then have "tag_scan (- 1) 0 cells = - 1" "marker_scan (- 1) 0 cells = - 1"
    by (simp_all add: tag_scan_eq marker_scan_eq idx_scan_none)
  then show "select_cutoff cells = min (int (length cells) - 1) 19"
    by (simp add: select_cutoff_def Let_def)
next
  show e: "select_cutoff [] = - 1" by (simp add: select_cutoff_def)
  show "reduced_document [] = Inr [synthesis_cell]"
    by (simp add: reduced_document_def build_subset_def e range0_def)
qed

theorem fallback_rule_witness:
  "\<not> list_ex health_tagged (replicate 25 plain_cell)
   \<and> \<not> list_ex marker_match (replicate 25 plain_cell)
   \<and> select_cutoff (replicate 25 plain_cell) = 19"
proof -
  have h1: "\<not> list_ex health_tagged (replicate 25 plain_cell)" by code_simp
  have h2: "\<not> list_ex marker_match (replicate 25 plain_cell)" by code_simp
  have n: "min (int (length (replicate 25 plain_cell)) - 1) 19 = 19" by simp
  from fallback_rule[of "replicate 25 plain_cell"] h1 h2 n show ?thesis by metis
qed

text \<open>
  Claim C10. Tag entries that are not strings play no part in the selection: removing them
  from every cell changes neither the result of the tag scan nor the cutoff. The selector
  has no error result.
\<close>

theorem non_string_tags_ignored:
  "select_cutoff (map string_tags_only cells) = select_cutoff cells
   \<and> tag_scan (- 1) 0 (map string_tags_only cells) = tag_scan (- 1) 0 cells"
proof -
  have t: "tag_scan l i (map string_tags_only cells) = tag_scan l i cells" for l i
    by (simp only: tag_scan_eq idx_scan_map health_tagged_string_tags_only)
  have m: "marker_scan l i (map string_tags_only cells) = marker_scan l i cells" for l i
    by (simp only: marker_scan_eq idx_scan_map marker_match_string_tags_only)
  have "select_cutoff (map string_tags_only cells) = select_cutoff cells"
    unfolding select_cutoff_def t m by (simp only: length_map)
  with t show ?thesis by simp
qed

section \<open>The reduced notebook\<close>

lemma select_cells_eq:
  "\<forall>idx\<in>set idxs. idx < length cells \<Longrightarrow>
   select_cells cells acc idxs
     = Inr (acc @ filter (\<lambda>c. \<not> pip_install_cell c) (map ((!) cells) idxs))"
  by (induction idxs arbitrary: acc) (simp_all add: Let_def pip_install_cell_def)

lemma map_nth_upt_take: "n \<le> length xs \<Longrightarrow> map ((!) xs) [0..<n] = take n xs"
  by (simp add: list_eq_iff_nth_eq)

lemma build_subset_eq:
  assumes "cutoff < int (length cells)"
  shows "build_subset cells cutoff = Inr (filtered_prefix cells cutoff @ [synthesis_cell])"
proof -
  let ?n = "nat (cutoff + 1)"
  from assms have n: "?n \<le> length cells" by simp
  then have "\<forall>idx\<in>set [0..<?n]. idx < length cells" by simp
  from select_cells_eq[OF this, of "[]"] n show ?thesis
    by (simp add: build_subset_def range0_def filtered_prefix_def map_nth_upt_take)
qed

lemma reduced_document_eq:
  "reduced_document cells
     = Inr (filtered_prefix cells (select_cutoff cells) @ [synthesis_cell])"
  unfolding reduced_document_def by (rule build_subset_eq) (rule select_cutoff_lt)

lemma synthesis_not_pip: "\<not> pip_install_cell synthesis_cell"
  by code_simp

lemma filtered_prefix_no_pip: "c \<in> set (filtered_prefix cells cutoff) \<Longrightarrow> \<not> pip_install_cell c"
  by (simp add: filtered_prefix_def)

text \<open>
  Claim C6. The reduced notebook is always built (no index is out of range) and holds no
  cell whose stripped source starts with \<open>%pip install\<close>; the same holds for the cells
  built from any cutoff below the number of cells.
\<close>

theorem reduced_document_no_pip_install:
  "(cutoff < int (length cells) \<longrightarrow>
      (\<exists>rd. build_subset cells cutoff = Inr rd \<and> (\<forall>c\<in>set rd. \<not> pip_install_cell c)))
   \<and> (\<exists>rd. reduced_document cells = Inr rd \<and> (\<forall>c\<in>set rd. \<not> pip_install_cell c))"
  using synthesis_not_pip filtered_prefix_no_pip
  by (auto simp: build_subset_eq reduced_document_eq)

theorem reduced_document_no_pip_install_witness:
  "(2::int) < int (length doc_pip) \<and> select_cutoff doc_pip = 2
   \<and> pip_install_cell (doc_pip ! 0)
   \<and> reduced_document doc_pip = Inr [doc_pip ! 1, doc_pip ! 2, synthesis_cell]
   \<and> build_subset doc_pip 2 = Inr [doc_pip ! 1, doc_pip ! 2, synthesis_cell]
   \<and> \<not> pip_install_cell (doc_pip ! 1) \<and> \<not> pip_install_cell (doc_pip ! 2)
   \<and> \<not> pip_install_cell synthesis_cell"
proof -
  have h: "(2::int) < int (length doc_pip)" by (simp add: doc_pip_def)
  have c: "select_cutoff doc_pip = 2" by code_simp
  have p: "pip_install_cell (doc_pip ! 0)" by code_simp
  have r: "reduced_document doc_pip = Inr [doc_pip ! 1, doc_pip ! 2, synthesis_cell]"
    by code_simp
  have b: "build_subset doc_pip 2 = Inr [doc_pip ! 1, doc_pip ! 2, synthesis_cell]"
    by code_simp
  from reduced_document_no_pip_install[of 2 doc_pip] r
  have "\<not> pip_install_cell (doc_pip ! 1) \<and> \<not> pip_install_cell (doc_pip ! 2)
      \<and> \<not> pip_install_cell synthesis_cell"
    by auto
  with h c p r b show ?thesis by blast
qed

text \<open>
  Claim C7. The reduced notebook is the filtered prefix followed by the synthesis cell: it
  has one cell more than the filtered prefix, and its last cell is the synthesis cell.
\<close>

theorem reduced_document_one_more_cell:
  "(cutoff < int (length cells) \<longrightarrow>
      (\<exists>rd. build_subset cells cutoff = Inr rd
         \<and> length rd = length (filtered_prefix cells cutoff) + 1
         \<and> butlast rd = filtered_prefix cells cutoff \<and> last rd = synthesis_cell))
   \<and> (\<exists>rd. reduced_document cells = Inr rd
         \<and> length rd = length (filtered_prefix cells (select_cutoff cells)) + 1
         \<and> butlast rd = filtered_prefix cells (select_cutoff cells)
         \<and> last rd = synthesis_cell)"
  by (simp add: build_subset_eq reduced_document_eq)

theorem reduced_document_one_more_cell_witness:
  "(2::int) < int (length doc_pip)
   \<and> filtered_prefix doc_pip 2 = [doc_pip ! 1, doc_pip ! 2]
   \<and> build_subset doc_pip 2 = Inr [doc_pip ! 1, doc_pip ! 2, synthesis_cell]"
proof -
  have h: "(2::int) < int (length doc_pip)" by (simp add: doc_pip_def)
  have f: "filtered_prefix doc_pip 2 = [doc_pip ! 1, doc_pip ! 2]" by code_simp
  from reduced_document_one_more_cell[of 2 doc_pip] h f
  obtain rd where rd: "build_subset doc_pip 2 = Inr rd" "length rd = 3"
    "butlast rd = [doc_pip ! 1, doc_pip ! 2]" "last rd = synthesis_cell"
    by auto
  from rd(2) have "rd \<noteq> []" by auto
  then have "rd = butlast rd @ [last rd]" by simp
  with rd have "build_subset doc_pip 2 = Inr [doc_pip ! 1, doc_pip ! 2, synthesis_cell]"
    by simp
  with h f show ?thesis by blast
qed

section \<open>Output inspection\<close>

lemma add_output_eq: "add_output acc out = acc @ output_contribution out"
  by (auto simp: add_output_def output_contribution_def Let_def split: option.splits)

lemma collect_outputs_eq:
  "collect_outputs acc outs = acc @ concat (map output_contribution outs)"
  by (induction outs arbitrary: acc) (simp_all add: add_output_eq)

text \<open>
  Claim C8. For executed cells the buffer \<open>stdout_text\<close> is the concatenation, in order, of
  the contributions of the output records of the last cell only.
\<close>

theorem buffer_is_concatenation:
  "executed \<noteq> [] \<Longrightarrow> stdout_text_of executed = Inr (classification_buffer executed)"
  by (simp add: stdout_text_of_def last_cell_def classification_buffer_def collect_outputs_eq)

theorem buffer_is_concatenation_witness:
  "[plain_cell\<lparr>outputs := [stream_output ''ignored'']\<rparr>, synthesis_cell\<lparr>outputs := mixed_outputs\<rparr>] \<noteq> []
   \<and> stdout_text_of [plain_cell\<lparr>outputs := [stream_output ''ignored'']\<rparr>,
                       synthesis_cell\<lparr>outputs := mixed_outputs\<rparr>]
       = Inr (''ab'' @ ''t1'' @ [CHR 0x0A] @ ''t2'' @ ''WSB_DSS_HEALTH_PERSISTED'')"
proof -
  let ?ex = "[plain_cell\<lparr>outputs := [stream_output ''ignored'']\<rparr>,
              synthesis_cell\<lparr>outputs := mixed_outputs\<rparr>]"
  have h: "?ex \<noteq> []" by simp
  have v: "classification_buffer ?ex
             = ''ab'' @ ''t1'' @ [CHR 0x0A] @ ''t2'' @ ''WSB_DSS_HEALTH_PERSISTED''"
    by code_simp
  from buffer_is_concatenation[OF h] v h show ?thesis by simp
qed

section \<open>The result of the runner\<close>

lemma audit_body_True: "audit_body load engine = Inr r \<Longrightarrow> r"
  by (auto simp: audit_body_def Let_def split: sum.splits)

text \<open>
  Claim C1 says that the result is true exactly when the success marker occurs in the
  buffer. On the empty notebook, with an engine that leaves the failure message of the
  synthesis cell as its only output, the buffer does not contain the marker and the runner
  returns \<open>True\<close>: \<open>persisted\<close> is computed and the function returns \<open>True\<close> regardless.
\<close>

theorem marker_ignored_by_result:
  "run_health_audit_notebook (Inr []) (engine_with_outputs failed_synthesis_outputs) = True
   \<and> stdout_text_of [synthesis_cell\<lparr>outputs := failed_synthesis_outputs\<rparr>]
       = Inr ''WSB_DSS_HEALTH_ERROR name 'run_health_audit' is not defined''
   \<and> \<not> str_in success_marker ''WSB_DSS_HEALTH_ERROR name 'run_health_audit' is not defined''"
  by code_simp

text \<open>
  Claim C5. An exception raised by loading, by the engine or by the inspection of the
  outputs makes the runner return \<open>False\<close>; the runner returns \<open>False\<close> exactly when its
  body raises.
\<close>

theorem exceptions_become_false:
  "(load = Inl e \<longrightarrow> run_health_audit_notebook load engine = False)
   \<and> (load = Inr cells \<and> reduced_document cells = Inr subset_nb \<and> engine subset_nb = Inl e
        \<longrightarrow> run_health_audit_notebook load engine = False)
   \<and> (load = Inr cells \<and> reduced_document cells = Inr subset_nb
        \<and> engine subset_nb = Inr executed \<and> stdout_text_of executed = Inl e
        \<longrightarrow> run_health_audit_notebook load engine = False)
   \<and> (run_health_audit_notebook load engine = False
        \<longleftrightarrow> (\<exists>e'. audit_body load engine = Inl e'))"
  by (auto simp: run_health_audit_notebook_def audit_body_def Let_def split: sum.splits)

theorem exceptions_become_false_witness:
  "run_health_audit_notebook missing_notebook timeout_engine = False
   \<and> run_health_audit_notebook (Inr doc5) timeout_engine = False
   \<and> run_health_audit_notebook (Inr doc5) dropping_engine = False"
proof -
  let ?rd = "filtered_prefix doc5 (select_cutoff doc5) @ [synthesis_cell]"
  let ?t = "Exn ''CellTimeoutError'' ''A cell timed out while it was being executed, after 900 seconds.''"
  have r: "reduced_document doc5 = Inr ?rd" by (rule reduced_document_eq)
  have t: "timeout_engine ?rd = Inl ?t" by (simp add: timeout_engine_def)
  have d: "dropping_engine ?rd = Inr []" by (simp add: dropping_engine_def)
  have s: "stdout_text_of [] = Inl IndexError" by (simp add: stdout_text_of_def last_cell_def)
  have 1: "run_health_audit_notebook missing_notebook timeout_engine = False"
    using exceptions_become_false[where load = missing_notebook and engine = timeout_engine
        and e = "Exn ''FileNotFoundError'' ''WSB-DSS.ipynb''"]
    by (simp add: missing_notebook_def)
  have 2: "run_health_audit_notebook (Inr doc5) timeout_engine = False"
    using exceptions_become_false[where load = "Inr doc5" and engine = timeout_engine
        and cells = doc5 and subset_nb = ?rd and e = ?t] r t
    by blast
  have 3: "run_health_audit_notebook (Inr doc5) dropping_engine = False"
    using exceptions_become_false[where load = "Inr doc5" and engine = dropping_engine
        and cells = doc5 and subset_nb = ?rd and executed = "[]" and e = IndexError] r d s
    by blast
  from 1 2 3 show ?thesis by blast
qed

section \<open>The HTTP handler\<close>

text \<open>
  Claim C9. The response of \<open>run_and_get_health\<close> always has a status among \<open>ok\<close>,
  \<open>empty\<close> and \<open>error\<close>. When the runner returns \<open>False\<close> it is the fixed error response,
  whatever the storage holds; when the runner returns \<open>True\<close> it is \<open>ok\<close> with the row
  zipped with \<open>dataset_id\<close>, \<open>computed_at\<close> and \<open>metrics\<close>, \<open>empty\<close> when there is no row,
  and \<open>error\<close> with the exception text when the storage read raises.
\<close>

theorem health_endpoint_response:
  "map_of (run_and_get_health load engine query) ''status''
     \<in> {Some (JStr ''ok''), Some (JStr ''empty''), Some (JStr ''error'')}
   \<and> (\<not> run_health_audit_notebook load engine \<longrightarrow>
        run_and_get_health load engine query
          = [(''status'', JStr ''error''),
             (''error'', JStr ''Failed to execute health audit cells.'')])
   \<and> (run_health_audit_notebook load engine \<and> query = Inr (Some row) \<and> row \<noteq> [] \<longrightarrow>
        run_and_get_health load engine query
          = [(''status'', JStr ''ok''), (''data'', JObj (zip row_keys row))])
   \<and> (run_health_audit_notebook load engine \<and> query = Inr (Some [a, b, c]) \<longrightarrow>
        run_and_get_health load engine query
          = [(''status'', JStr ''ok''),
             (''data'', JObj [(''dataset_id'', a), (''computed_at'', b), (''metrics'', c)])])
   \<and> (run_health_audit_notebook load engine \<and> (query = Inr None \<or> query = Inr (Some [])) \<longrightarrow>
        run_and_get_health load engine query
          = [(''status'', JStr ''empty''), (''data'', JNull)])
   \<and> (run_health_audit_notebook load engine \<and> query = Inl e \<longrightarrow>
        run_and_get_health load engine query
          = [(''status'', JStr ''error''), (''error'', JStr (exn_str e))])"
  by (auto simp: run_and_get_health_def health_response_def row_keys_def split: sum.splits)

theorem health_endpoint_response_witness:
  "\<not> run_health_audit_notebook missing_notebook timeout_engine
   \<and> run_and_get_health missing_notebook timeout_engine (Inr (Some sample_row))
       = [(''status'', JStr ''error''), (''error'', JStr ''Failed to execute health audit cells.'')]
   \<and> run_health_audit_notebook (Inr []) (engine_with_outputs mixed_outputs)
   \<and> run_and_get_health (Inr []) (engine_with_outputs mixed_outputs) (Inr (Some sample_row))
       = [(''status'', JStr ''ok''),
          (''data'', JObj [(''dataset_id'', JStr ''listings''),
                           (''computed_at'', JStr ''2024-05-01 10:00:00''),
                           (''metrics'', JStr ''{}'')])]
   \<and> run_and_get_health (Inr []) (engine_with_outputs mixed_outputs) (Inr None)
       = [(''status'', JStr ''empty''), (''data'', JNull)]
   \<and> run_and_get_health (Inr []) (engine_with_outputs mixed_outputs) (Inl db_error)
       = [(''status'', JStr ''error''),
          (''error'', JStr ''Table with name health_checks does not exist!'')]"
proof -
  let ?eng = "engine_with_outputs mixed_outputs"
  have f: "\<not> run_health_audit_notebook missing_notebook timeout_engine" by code_simp
  have t: "run_health_audit_notebook (Inr []) ?eng" by code_simp
  have r: "sample_row = [JStr ''listings'', JStr ''2024-05-01 10:00:00'', JStr ''{}'']"
    by (simp add: sample_row_def)
  have x: "exn_str db_error = ''Table with name health_checks does not exist!''"
    by (simp add: db_error_def)
  note w = health_endpoint_response
  from w[where load = missing_notebook and engine = timeout_engine
      and query = "Inr (Some sample_row)"] f
  have 1: "run_and_get_health missing_notebook timeout_engine (Inr (Some sample_row))
       = [(''status'', JStr ''error''), (''error'', JStr ''Failed to execute health audit cells.'')]"
    by blast
  from w[where load = "Inr []" and engine = ?eng and query = "Inr (Some sample_row)"
      and a = "JStr ''listings''" and b = "JStr ''2024-05-01 10:00:00''" and c = "JStr ''{}''"] t r
  have 2: "run_and_get_health (Inr []) ?eng (Inr (Some sample_row))
       = [(''status'', JStr ''ok''),
          (''data'', JObj [(''dataset_id'', JStr ''listings''),
                           (''computed_at'', JStr ''2024-05-01 10:00:00''),
                           (''metrics'', JStr ''{}'')])]"
    by simp
  from w[where load = "Inr []" and engine = ?eng and query = "Inr None"] t
  have 3: "run_and_get_health (Inr []) ?eng (Inr None)
       = [(''status'', JStr ''empty''), (''data'', JNull)]"
    by blast
  from w[where load = "Inr []" and engine = ?eng and query = "Inl db_error" and e = db_error] t x
  have 4: "run_and_get_health (Inr []) ?eng (Inl db_error)
       = [(''status'', JStr ''error''),
          (''error'', JStr ''Table with name health_checks does not exist!'')]"
    by simp
  from f t 1 2 3 4 show ?thesis by blast
qed

end
